theory Spec2Isabelle
  imports Main
begin

section \<open>JavaScript values used by the bundler\<close>

text \<open>
  Strings are modelled as \<^typ>\<open>string\<close>. The addresses, selectors and hex quantities handled
  here are ASCII, so \<open>toLowerCase\<close> is modelled on the ASCII letters and the white space
  trimmed by \<open>BigInt(string)\<close> is the ASCII white space.
\<close>

definition toLowerCase_char :: "char \<Rightarrow> char" where
  "toLowerCase_char c =
     (let n = (of_char c :: nat) in if 65 \<le> n \<and> n \<le> 90 then char_of (n + 32) else c)"

definition toLowerCase :: "string \<Rightarrow> string" where
  "toLowerCase s = map toLowerCase_char s"

text \<open>\<open>s.substring(0, n)\<close> for a constant \<open>n\<close>.\<close>

definition substring0 :: "nat \<Rightarrow> string \<Rightarrow> string" where
  "substring0 n s = take n s"

text \<open>
  Truthiness of an optional string property (\<open>error?: string\<close>): \<open>undefined\<close> and the
  empty string are falsy, every other string is truthy.
\<close>

definition truthy :: "string option \<Rightarrow> bool" where
  "truthy e = (case e of None \<Rightarrow> False | Some s \<Rightarrow> s \<noteq> [])"

subsection \<open>BigInt\<close>

text \<open>
  \<open>BigInt(s)\<close> on a string follows StringToBigInt: the string is trimmed; the empty
  string is \<open>0n\<close>; a decimal literal may carry a sign; a literal with prefix \<open>0x\<close>,
  \<open>0o\<close> or \<open>0b\<close> (either case) carries none; anything else is a SyntaxError, here
  \<open>None\<close>.
\<close>

definition digit_of :: "char \<Rightarrow> nat option" where
  "digit_of c =
     (let n = (of_char c :: nat) in
      if 48 \<le> n \<and> n \<le> 57 then Some (n - 48)
      else if 97 \<le> n \<and> n \<le> 122 then Some (n - 87)
      else if 65 \<le> n \<and> n \<le> 90 then Some (n - 55)
      else None)"

fun digits_value :: "nat \<Rightarrow> string \<Rightarrow> nat \<Rightarrow> nat option" where
  "digits_value base [] acc = Some acc"
| "digits_value base (c # cs) acc =
     (case digit_of c of
        None \<Rightarrow> None
      | Some d \<Rightarrow> if d < base then digits_value base cs (acc * base + d) else None)"

definition parse_digits :: "nat \<Rightarrow> string \<Rightarrow> int option" where
  "parse_digits base s =
     (if s = [] then None else map_option int (digits_value base s 0))"

definition is_space :: "char \<Rightarrow> bool" where
  "is_space c = (let n = (of_char c :: nat) in (9 \<le> n \<and> n \<le> 13) \<or> n = 32)"

definition trim :: "string \<Rightarrow> string" where
  "trim s = rev (dropWhile is_space (rev (dropWhile is_space s)))"

definition StringToBigInt :: "string \<Rightarrow> int option" where
  "StringToBigInt s =
     (let t = trim s in
      if t = [] then Some 0
      else if take 2 t = ''0x'' \<or> take 2 t = ''0X'' then parse_digits 16 (drop 2 t)
      else if take 2 t = ''0o'' \<or> take 2 t = ''0O'' then parse_digits 8 (drop 2 t)
      else if take 2 t = ''0b'' \<or> take 2 t = ''0B'' then parse_digits 2 (drop 2 t)
      else if hd t = CHR ''-'' then map_option uminus (parse_digits 10 (tl t))
      else if hd t = CHR ''+'' then parse_digits 10 (tl t)
      else parse_digits 10 t)"

text \<open>
  BigInt division truncates towards zero. A zero divisor raises a RangeError in
  JavaScript; every divisor in this program is a non-zero constant (\<open>63 ** depth\<close>,
  \<open>100\<close>).
\<close>

definition BigInt_div :: "int \<Rightarrow> int \<Rightarrow> int" where
  "BigInt_div a b = sgn a * sgn b * (\<bar>a\<bar> div \<bar>b\<bar>)"

section \<open>Call traces\<close>

text \<open>
  \<open>TraceItem\<close> of MethodHandlerERC4337. The tracer leaves \<open>calls\<close> out of a frame
  that made no call, and the code tests for that, so the field is optional here.
\<close>

datatype TraceItem = TraceItem
  (ti_from: string) (ti_gas: string) (ti_gasUsed: string) (ti_to: string)
  (ti_input: string) (ti_output: string) (ti_calls: "TraceItem list option")
  (ti_value: string) (ti_error: "string option") (ti_type: string)

definition EXECUTE_USEROP_SELECTOR :: string where
  "EXECUTE_USEROP_SELECTOR = ''0x8dd7712f''"

definition VALIDATE_PAYMASTER_SELECTOR :: string where
  "VALIDATE_PAYMASTER_SELECTOR = ''0x52b7512c''"

definition POSTOP_SELECTOR :: string where
  "POSTOP_SELECTOR = ''0x7c627b21''"

definition VERIFICATION_SELECTOR :: string where
  "VERIFICATION_SELECTOR = ''0x19822f7c''"

text \<open>\<open>!node.calls || node.calls.length === 0\<close>\<close>

definition no_calls :: "TraceItem list option \<Rightarrow> bool" where
  "no_calls cs = (case cs of None \<Rightarrow> True | Some l \<Rightarrow> length l = 0)"

definition getSimulationErrorMessage :: "TraceItem option \<Rightarrow> string" where
  "getSimulationErrorMessage traceItem =
     (case traceItem of
        Some t \<Rightarrow>
          ti_type t @ '' '' @ ti_input t @ '' from '' @ ti_from t @ '' to '' @ ti_to t
          @ '' reverted with \"'' @ (case ti_error t of None \<Rightarrow> ''undefined'' | Some e \<Rightarrow> e)
          @ '':\" '' @ ti_output t
      | None \<Rightarrow> ''Unexpected simulation error'')"

fun findRevertedCall :: "TraceItem \<Rightarrow> TraceItem option"
  and findRevertedCall_loop :: "TraceItem list \<Rightarrow> TraceItem option" where
  "findRevertedCall (TraceItem f g gu t i out cs v e ty) =
     (if no_calls cs \<and> truthy e \<and> ty \<noteq> ''STATICCALL''
      then Some (TraceItem f g gu t i out cs v e ty)
      else case cs of
             Some l \<Rightarrow> findRevertedCall_loop l
           | None \<Rightarrow> None)"
| "findRevertedCall_loop [] = None"
| "findRevertedCall_loop (call # rest) =
     (case findRevertedCall call of
        Some result \<Rightarrow> Some result
      | None \<Rightarrow> findRevertedCall_loop rest)"

fun getCallFromTrace :: "TraceItem \<Rightarrow> string \<Rightarrow> string \<Rightarrow> string \<Rightarrow> TraceItem option"
  and getCallFromTrace_loop ::
    "TraceItem list \<Rightarrow> string \<Rightarrow> string \<Rightarrow> string \<Rightarrow> TraceItem option" where
  "getCallFromTrace (TraceItem f g gu t i out cs v e ty) frm to selector =
     (if f = frm \<and> t = to \<and> substring0 10 i = selector
      then Some (TraceItem f g gu t i out cs v e ty)
      else case cs of
             Some l \<Rightarrow> getCallFromTrace_loop l frm to selector
           | None \<Rightarrow> None)"
| "getCallFromTrace_loop [] frm to selector = None"
| "getCallFromTrace_loop (call # rest) frm to selector =
     (case getCallFromTrace call frm to selector of
        Some result \<Rightarrow> Some result
      | None \<Rightarrow> getCallFromTrace_loop rest frm to selector)"

fun getDepth :: "TraceItem \<Rightarrow> nat"
  and getDepth_loop :: "TraceItem list \<Rightarrow> nat \<Rightarrow> nat" where
  "getDepth (TraceItem f g gu t i out cs v e ty) =
     (case cs of
        None \<Rightarrow> 1
      | Some l \<Rightarrow> if length l = 0 then 1 else getDepth_loop l 0 + 1)"
| "getDepth_loop [] maxDepth = maxDepth"
| "getDepth_loop (call # rest) maxDepth =
     (let callDepth = getDepth call
      in getDepth_loop rest (if callDepth > maxDepth then callDepth else maxDepth))"

section \<open>Errors\<close>

text \<open>
  The members of \<open>ValidationErrors\<close> that the gas estimation uses, and the exceptions
  it can raise. \<open>RpcError\<close> carries the message given to its constructor (line 254 may
  pass \<open>null\<close>), the code and the optional data. \<open>Thrown\<close> is an exception of a
  collaborator, passed through unchanged.
\<close>

datatype ValidationErrors = UserOperationReverted | SimulateValidation

datatype JsError =
    RpcError "string option" ValidationErrors "TraceItem option"
  | TypeError string
  | SyntaxError string
  | Thrown string

definition getCallGasLimit :: "TraceItem option \<Rightarrow> JsError + int" where
  "getCallGasLimit call =
     (case call of
        None \<Rightarrow>
          Inl (RpcError (Some ''No call was made. Was that intentional?'')
                 UserOperationReverted None)
      | Some c \<Rightarrow>
          if truthy (ti_error c)
          then Inl (RpcError (Some (getSimulationErrorMessage (Some c)))
                      UserOperationReverted (Some c))
          else
            (let depth = getDepth c in
             case StringToBigInt (ti_gasUsed c) of
               None \<Rightarrow> Inl (SyntaxError ''Cannot convert gasUsed to a BigInt'')
             | Some gasUsed \<Rightarrow>
                 Inr (BigInt_div (gasUsed * 64 ^ depth) (63 ^ depth) + 2000)))"

section \<open>The ERC-4337 method handler\<close>

datatype BigNumberish = BN_number int | BN_string string

record UserOperation =
  uo_sender :: string
  uo_nonce :: BigNumberish
  uo_factory :: "string option"
  uo_factoryData :: "string option"
  uo_callData :: string
  uo_callGasLimit :: "BigNumberish option"
  uo_verificationGasLimit :: "BigNumberish option"
  uo_preVerificationGas :: "BigNumberish option"
  uo_maxFeePerGas :: "BigNumberish option"
  uo_maxPriorityFeePerGas :: "BigNumberish option"
  uo_paymaster :: "string option"
  uo_paymasterVerificationGasLimit :: "BigNumberish option"
  uo_paymasterPostOpGasLimit :: "BigNumberish option"
  uo_paymasterData :: "string option"
  uo_signature :: string

record EstimateUserOpGasResult =
  est_preVerificationGas :: int
  est_verificationGasLimit :: int
  est_validAfter :: int
  est_validUntil :: int
  est_callGasLimit :: int
  est_paymasterPostOpGasLimit :: int
  est_paymasterVerificationGasLimit :: int

text \<open>The fields of the decoded \<open>simulateHandleOp\<close> result that the estimation reads.\<close>

record ExecutionResult =
  ri_preOpGas :: int
  ri_accountValidationData :: int
  ri_paymasterValidationData :: int

text \<open>
  The collaborators of \<open>estimateUserOperationGas\<close> whose code lies outside this
  module are parameters: the outcome of \<open>_validateParameters(deepHexlify(userOp), ...)\<close>
  (\<open>Some\<close> is the exception it raised), \<open>simulationRpcParams\<close> with the ABI encoding it
  performs, the node's answer to \<open>debug_traceCall\<close>, the decoders of
  \<open>@account-abstraction/utils\<close> and \<open>calcPreVerificationGas(deepHexlify(userOp))\<close>
  of the SDK. RPC parameters, state overrides and the provider's exceptions are opaque
  strings.
\<close>

record Env =
  entryPoint_address :: string
  validateParameters :: "UserOperation \<Rightarrow> string \<Rightarrow> JsError option"
  simulationRpcParams :: "string \<Rightarrow> string \<Rightarrow> UserOperation \<Rightarrow> string option \<Rightarrow> JsError + string"
  provider_send :: "string \<Rightarrow> string \<Rightarrow> string + TraceItem"
  decodeRevertReason :: "string \<Rightarrow> string option"
  decodeSimulateHandleOpResult :: "string \<Rightarrow> JsError + ExecutionResult"
  mergeValidationDataValues :: "int \<Rightarrow> int \<Rightarrow> int \<times> int"
  calcPreVerificationGas :: "UserOperation \<Rightarrow> JsError + int"

text \<open>
  \<open>estimateUserOperationGas\<close> returns its result, or the exception that rejects the
  promise, together with the \<open>userOp\<close> object as the call leaves it: the caller's object
  is passed by reference and line 322 assigns to it.
\<close>

definition estimateUserOperationGas ::
  "Env \<Rightarrow> UserOperation \<Rightarrow> string \<Rightarrow> string option
     \<Rightarrow> (JsError + EstimateUserOpGasResult) \<times> UserOperation" where
  "estimateUserOperationGas env userOp entryPointInput stateOverride =
     (case validateParameters env userOp entryPointInput of
        Some e \<Rightarrow> (Inl e, userOp)
      | None \<Rightarrow>
     (case simulationRpcParams env ''simulateHandleOp'' (entryPoint_address env) userOp
             stateOverride of
        Inl e \<Rightarrow> (Inl e, userOp)
      | Inr rpcParams \<Rightarrow>
     (case provider_send env ''debug_traceCall'' rpcParams of
        Inl e \<Rightarrow> (Inl (RpcError (decodeRevertReason env e) SimulateValidation None), userOp)
      | Inr trace \<Rightarrow>
     if truthy (ti_error trace) then
       (let errorTraceItem = findRevertedCall trace;
            message =
              (case errorTraceItem of
                 Some t \<Rightarrow> Some (getSimulationErrorMessage errorTraceItem)
               | None \<Rightarrow> decodeRevertReason env (ti_output trace))
        in (Inl (RpcError
                   (Some (case message of
                            Some m \<Rightarrow> m
                          | None \<Rightarrow> ''Unexpected error during gas estimation''))
                   UserOperationReverted errorTraceItem),
            userOp))
     else
     (case decodeSimulateHandleOpResult env (ti_output trace) of
        Inl e \<Rightarrow> (Inl e, userOp)
      | Inr returnInfo \<Rightarrow>
     (let (validAfter, validUntil) =
            mergeValidationDataValues env (ri_accountValidationData returnInfo)
              (ri_paymasterValidationData returnInfo);
          preOpGas = ri_preOpGas returnInfo;
          executeCall =
            getCallFromTrace trace (toLowerCase (entryPoint_address env))
              (toLowerCase (uo_sender userOp)) EXECUTE_USEROP_SELECTOR
      in
     (case uo_paymaster userOp of
        None \<Rightarrow>
          (Inl (TypeError ''Cannot read properties of undefined (reading toLowerCase)''),
           userOp)
      | Some paymaster \<Rightarrow>
     (let validatePaymasterCall =
            getCallFromTrace trace (toLowerCase (entryPoint_address env))
              (toLowerCase paymaster) VALIDATE_PAYMASTER_SELECTOR;
          postOpCall =
            getCallFromTrace trace (toLowerCase (entryPoint_address env))
              (toLowerCase paymaster) POSTOP_SELECTOR;
          verificationCall =
            getCallFromTrace trace (toLowerCase (entryPoint_address env))
              (toLowerCase (uo_sender userOp)) VERIFICATION_SELECTOR
      in
     (case getCallGasLimit executeCall of
        Inl e \<Rightarrow> (Inl e, userOp)
      | Inr callGasLimit \<Rightarrow>
     (case getCallGasLimit validatePaymasterCall of
        Inl e \<Rightarrow> (Inl e, userOp)
      | Inr actualPaymasterVerificationGasLimit \<Rightarrow>
     (case getCallGasLimit postOpCall of
        Inl e \<Rightarrow> (Inl e, userOp)
      | Inr paymasterPostOpGasLimit \<Rightarrow>
     (case getCallGasLimit verificationCall of
        Inl e \<Rightarrow> (Inl e, userOp)
      | Inr actualAccountVerificationGasLimit \<Rightarrow>
     (let epValidationGas =
            preOpGas - actualAccountVerificationGasLimit
              - actualPaymasterVerificationGasLimit;
          accountValidationGasOverhead = BigInt_div (epValidationGas * 57) 100;
          paymasterValidationGasOverhead = BigInt_div (epValidationGas * 43) 100;
          verificationGasLimit =
            actualAccountVerificationGasLimit + accountValidationGasOverhead + 3000;
          paymasterVerificationGasLimit =
            actualPaymasterVerificationGasLimit + paymasterValidationGasOverhead + 3000;
          userOp' = userOp\<lparr>uo_preVerificationGas := Some (BN_number 50000)\<rparr>
      in
     (case calcPreVerificationGas env userOp' of
        Inl e \<Rightarrow> (Inl e, userOp')
      | Inr preVerificationGas \<Rightarrow>
          (Inr \<lparr>est_preVerificationGas = preVerificationGas,
                est_verificationGasLimit = verificationGasLimit,
                est_validAfter = validAfter,
                est_validUntil = validUntil,
                est_callGasLimit = callGasLimit,
                est_paymasterPostOpGasLimit = paymasterPostOpGasLimit,
                est_paymasterVerificationGasLimit = paymasterVerificationGasLimit\<rparr>,
           userOp'))))))))))))))"

text \<open>
  \<open>selectBeneficiary\<close>: \<open>signer_getAddress\<close> is the address the signer resolves to,
  \<open>provider_getBalance\<close> the balance the provider reports for an address, and
  \<open>minBalance\<close> the configured threshold as the number \<open>lte\<close> compares with.
\<close>

record BundlerConfig =
  beneficiary :: string
  minBalance :: int
  entryPoint :: string

definition selectBeneficiary :: "BundlerConfig \<Rightarrow> (string \<Rightarrow> int) \<Rightarrow> string \<Rightarrow> string" where
  "selectBeneficiary config provider_getBalance signer_getAddress =
     (let currentBalance = provider_getBalance signer_getAddress;
          beneficiary = beneficiary config
      in if currentBalance \<le> minBalance config then signer_getAddress else beneficiary)"

section \<open>The RPC server\<close>

text \<open>
  \<open>handleRpc\<close> reads four properties of the request item. An item that is \<open>null\<close> or
  \<open>undefined\<close> has none and cannot be destructured; any other value is seen through
  those four properties, each possibly \<open>undefined\<close>. Values are of an arbitrary type
  \<open>'v\<close>.
\<close>

datatype 'v reqItem =
    ReqNullish
  | ReqItem (rq_method: "'v option") (rq_params: "'v option")
      (rq_jsonrpc: "'v option") (rq_id: "'v option")

text \<open>The \<open>error\<close> object of a response: the three properties copied from the exception.\<close>

datatype 'v ErrorObject =
  ErrorObject (eo_message: "'v option") (eo_data: "'v option") (eo_code: "'v option")

text \<open>
  A thrown value, as the \<open>catch\<close> block sees it: \<open>null\<close> or \<open>undefined\<close>, or a value
  with its \<open>message\<close>, \<open>data\<close> and \<open>code\<close> properties and, when its \<open>error\<close>
  property is an instance of \<open>Error\<close>, the properties of that inner error.
\<close>

datatype 'v Caught =
    CaughtNullish
  | CaughtValue "'v ErrorObject" "'v ErrorObject option"

datatype 'v RpcResponse =
    ResultResponse "'v option" "'v option" 'v
  | ErrorResponse "'v option" "'v option" "'v ErrorObject"

text \<open>
  \<open>handleMethod\<close> dispatches to the method handlers and \<open>deepHexlify\<close> is a utility of
  another package; both run inside the \<open>try\<close> and are parameters here, returning a
  value or the exception they raised. The \<open>catch\<close> block evaluates
  \<open>JSON.stringify(error)\<close> as an argument of its log call, which raises a TypeError
  on a BigInt or on circular data; it is a parameter too, since the values are of an
  arbitrary type. The output of the log calls is left out.
\<close>

definition handleRpc ::
  "('v option \<Rightarrow> 'v option \<Rightarrow> 'v Caught + 'r) \<Rightarrow> ('r \<Rightarrow> 'v Caught + 'v)
     \<Rightarrow> ('v ErrorObject \<Rightarrow> JsError + string)
     \<Rightarrow> 'v reqItem \<Rightarrow> JsError + 'v RpcResponse" where
  "handleRpc handleMethod deepHexlify JSON_stringify reqItem =
     (case reqItem of
        ReqNullish \<Rightarrow> Inl (TypeError ''Cannot destructure property method of reqItem'')
      | ReqItem method params jsonrpc id' \<Rightarrow>
          (case (case handleMethod method params of
                   Inl err \<Rightarrow> Inl err
                 | Inr r \<Rightarrow> deepHexlify r) of
             Inr result \<Rightarrow> Inr (ResultResponse jsonrpc id' result)
           | Inl err \<Rightarrow>
               (let err' = (case err of
                              CaughtValue outer (Some inner) \<Rightarrow> CaughtValue inner None
                            | _ \<Rightarrow> err)
                in case err' of
                     CaughtNullish \<Rightarrow>
                       Inl (TypeError ''Cannot read properties of undefined (reading message)'')
                   | CaughtValue error _ \<Rightarrow>
                       (case JSON_stringify error of
                          Inl e \<Rightarrow> Inl e
                        | Inr logged \<Rightarrow> Inr (ErrorResponse jsonrpc id' error)))))"

section \<open>Notions used to state the properties\<close>

text \<open>The child frames of a frame, none when \<open>calls\<close> is absent.\<close>

definition children :: "TraceItem \<Rightarrow> TraceItem list" where
  "children t = (case ti_calls t of None \<Rightarrow> [] | Some l \<Rightarrow> l)"

text \<open>The frames of a trace in depth-first order, a frame before its children.\<close>

fun frames :: "TraceItem \<Rightarrow> TraceItem list"
  and frames_list :: "TraceItem list \<Rightarrow> TraceItem list" where
  "frames (TraceItem f g gu t i out cs v e ty) =
     TraceItem f g gu t i out cs v e ty
       # (case cs of None \<Rightarrow> [] | Some l \<Rightarrow> frames_list l)"
| "frames_list [] = []"
| "frames_list (c # cs) = frames c @ frames_list cs"

text \<open>A leaf frame that reports an error, and one that is not a static call.\<close>

definition errored_leaf :: "TraceItem \<Rightarrow> bool" where
  "errored_leaf t = (children t = [] \<and> truthy (ti_error t))"

definition reverted_leaf :: "TraceItem \<Rightarrow> bool" where
  "reverted_leaf t = (errored_leaf t \<and> ti_type t \<noteq> ''STATICCALL'')"

text \<open>The code of the \<open>RpcError\<close> a computation raised, if it raised one.\<close>

definition rpc_code :: "JsError + 'a \<Rightarrow> ValidationErrors option" where
  "rpc_code r = (case r of Inl (RpcError message code data) \<Rightarrow> Some code | _ \<Rightarrow> None)"

text \<open>A frame matches a marker by caller, callee and the first ten characters of its input.\<close>

definition matches :: "string \<Rightarrow> string \<Rightarrow> string \<Rightarrow> TraceItem \<Rightarrow> bool" where
  "matches frm to selector t =
     (ti_from t = frm \<and> ti_to t = to \<and> take 10 (ti_input t) = selector)"

section \<open>Sample traces, operations and collaborators\<close>

text \<open>
  A trace of a successful simulation: the root call into the entry point with the four
  phase frames below it. The execution frame has depth 3, the other three are leaves.
\<close>

definition w_grandchild :: TraceItem where
  "w_grandchild =
     TraceItem ''0xc0de'' ''0x100'' ''0x20'' ''0xd00d'' ''0x70a08231'' ''0x'' None ''0x0''
       None ''STATICCALL''"

definition w_child :: TraceItem where
  "w_child =
     TraceItem ''0xabc1'' ''0x1000'' ''0x200'' ''0xc0de'' ''0xa9059cbb'' ''0x''
       (Some [w_grandchild]) ''0x0'' None ''CALL''"

definition w_execute :: TraceItem where
  "w_execute =
     TraceItem ''0x5ff1'' ''0x10000'' ''0x5208'' ''0xabc1'' ''0x8dd7712f00000020'' ''0x''
       (Some [w_child]) ''0x0'' None ''CALL''"

definition w_verification :: TraceItem where
  "w_verification =
     TraceItem ''0x5ff1'' ''0x10000'' ''0x5208'' ''0xabc1'' ''0x19822f7c00000060'' ''0x''
       None ''0x0'' None ''CALL''"

definition w_validatePaymaster :: TraceItem where
  "w_validatePaymaster =
     TraceItem ''0x5ff1'' ''0x10000'' ''0x3e8'' ''0xdef2'' ''0x52b7512c00000060'' ''0x''
       (Some []) ''0x0'' None ''CALL''"

definition w_postOp :: TraceItem where
  "w_postOp =
     TraceItem ''0x5ff1'' ''0x10000'' ''0x0'' ''0xdef2'' ''0x7c627b2100000002'' ''0x''
       None ''0x0'' None ''CALL''"

definition w_trace :: TraceItem where
  "w_trace =
     TraceItem ''0x0000'' ''0x989680'' ''0x20000'' ''0x5ff1'' ''0x97b2dcb9'' ''0x''
       (Some [w_verification, w_validatePaymaster, w_execute, w_postOp]) ''0x0''
       None ''CALL''"

text \<open>
  A trace of a reverted simulation: a static call that reverted, then the execution
  frame that reverted; and one in which only the static call reverted.
\<close>

definition x_static :: TraceItem where
  "x_static =
     TraceItem ''0x5ff1'' ''0x1000'' ''0x64'' ''0xc0de'' ''0x70a08231'' ''0x'' None ''0x0''
       (Some ''execution reverted'') ''STATICCALL''"

definition x_call :: TraceItem where
  "x_call =
     TraceItem ''0x5ff1'' ''0x10000'' ''0x5208'' ''0xabc1'' ''0x8dd7712f00000020''
       ''0x08c379a0'' None ''0x0'' (Some ''execution reverted'') ''CALL''"

definition x_trace :: TraceItem where
  "x_trace =
     TraceItem ''0x0000'' ''0x989680'' ''0x20000'' ''0x5ff1'' ''0x97b2dcb9'' ''0x''
       (Some [x_static, x_call]) ''0x0'' (Some ''execution reverted'') ''CALL''"

definition y_trace :: TraceItem where
  "y_trace =
     TraceItem ''0x0000'' ''0x989680'' ''0x20000'' ''0x5ff1'' ''0x97b2dcb9'' ''0x''
       (Some [x_static]) ''0x0'' (Some ''execution reverted'') ''CALL''"

text \<open>
  Collaborators that accept the operation, answer \<open>debug_traceCall\<close> with the given
  trace and decode its output to the given \<open>preOpGas\<close>.
\<close>

definition w_env :: "TraceItem \<Rightarrow> int \<Rightarrow> Env" where
  "w_env trace pre =
     \<lparr>entryPoint_address = ''0x5FF1'',
      validateParameters = (\<lambda>userOp entryPointInput. None),
      simulationRpcParams = (\<lambda>methodName entryPointAddress userOp extraOptions. Inr ''[tx]''),
      provider_send = (\<lambda>method rpcParams. Inr trace),
      decodeRevertReason = (\<lambda>data. None),
      decodeSimulateHandleOpResult =
        (\<lambda>data. Inr \<lparr>ri_preOpGas = pre, ri_accountValidationData = 0,
                      ri_paymasterValidationData = 0\<rparr>),
      mergeValidationDataValues = (\<lambda>accountValidationData paymasterValidationData. (0, 0)),
      calcPreVerificationGas = (\<lambda>userOp. Inr 45000)\<rparr>"

definition w_userOp :: UserOperation where
  "w_userOp =
     \<lparr>uo_sender = ''0xAbC1'', uo_nonce = BN_string ''0x0'', uo_factory = None,
      uo_factoryData = None, uo_callData = ''0xb61d27f6'',
      uo_callGasLimit = None, uo_verificationGasLimit = None,
      uo_preVerificationGas = Some (BN_string ''0x1''),
      uo_maxFeePerGas = Some (BN_string ''0x3b9aca00''),
      uo_maxPriorityFeePerGas = Some (BN_string ''0x3b9aca00''),
      uo_paymaster = Some ''0xDef2'',
      uo_paymasterVerificationGasLimit = Some (BN_string ''0x0''),
      uo_paymasterPostOpGasLimit = Some (BN_string ''0x0''),
      uo_paymasterData = Some ''0x'', uo_signature = ''0xff''\<rparr>"

definition w_result :: "int \<Rightarrow> int \<Rightarrow> EstimateUserOpGasResult" where
  "w_result v p =
     \<lparr>est_preVerificationGas = 45000, est_verificationGasLimit = v,
      est_validAfter = 0, est_validUntil = 0, est_callGasLimit = 24015,
      est_paymasterPostOpGasLimit = 2000, est_paymasterVerificationGasLimit = p\<rparr>"

definition c7_config :: BundlerConfig where
  "c7_config = \<lparr>beneficiary = ''0xBe9e'', minBalance = 1000, entryPoint = ''0x5FF1''\<rparr>"

section \<open>The traversals as searches of the depth-first frame list\<close>

lemma find_app:
  "List.find P (xs @ ys) = (case List.find P xs of Some x \<Rightarrow> Some x | None \<Rightarrow> List.find P ys)"
  by (induction xs) simp_all

lemma findRevertedCall_find:
  "findRevertedCall t = List.find reverted_leaf (frames t)"
  "findRevertedCall_loop cs = List.find reverted_leaf (frames_list cs)"
proof (induction t and cs rule: findRevertedCall_findRevertedCall_loop.induct)
  case (1 f g gu t i out cs v e ty)
  let ?node = "TraceItem f g gu t i out cs v e ty"
  have leaf: "reverted_leaf ?node = (no_calls cs \<and> truthy e \<and> ty \<noteq> ''STATICCALL'')"
    by (simp add: reverted_leaf_def errored_leaf_def children_def no_calls_def
        split: option.splits)
  show ?case
  proof (cases "no_calls cs \<and> truthy e \<and> ty \<noteq> ''STATICCALL''")
    case True
    with leaf show ?thesis by simp
  next
    case False
    with leaf have nl: "\<not> reverted_leaf ?node" by simp
    show ?thesis
    proof (cases cs)
      case None
      with False nl show ?thesis by simp
    next
      case (Some l)
      with "1.IH" False have "findRevertedCall_loop l = List.find reverted_leaf (frames_list l)"
        by simp
      with False nl Some show ?thesis by auto
    qed
  qed
next
  case 2
  show ?case by simp
next
  case (3 call rest)
  then show ?case by (simp add: find_app split: option.splits)
qed

lemma getCallFromTrace_find:
  "getCallFromTrace t frm to selector = List.find (matches frm to selector) (frames t)"
  "getCallFromTrace_loop cs frm to selector
     = List.find (matches frm to selector) (frames_list cs)"
proof (induction t frm to selector and cs frm to selector
    rule: getCallFromTrace_getCallFromTrace_loop.induct)
  case (1 f g gu t i out cs v e ty frm to selector)
  let ?node = "TraceItem f g gu t i out cs v e ty"
  have m: "matches frm to selector ?node = (f = frm \<and> t = to \<and> substring0 10 i = selector)"
    by (simp add: matches_def substring0_def)
  show ?case
  proof (cases "f = frm \<and> t = to \<and> substring0 10 i = selector")
    case True
    with m show ?thesis by simp
  next
    case False
    with m have nm: "\<not> matches frm to selector ?node" by simp
    show ?thesis
    proof (cases cs)
      case None
      with False nm show ?thesis by simp
    next
      case (Some l)
      with "1.IH" False
      have "getCallFromTrace_loop l frm to selector
              = List.find (matches frm to selector) (frames_list l)"
        by simp
      with False nm Some show ?thesis by auto
    qed
  qed
next
  case 2
  show ?case by simp
next
  case (3 call rest frm to selector)
  then show ?case by (simp add: find_app split: option.splits)
qed

section \<open>Depth and gas limit of a frame\<close>

lemma getDepth_loop_fold:
  "getDepth_loop cs m = fold max (map getDepth cs) m"
  by (induction cs arbitrary: m) (simp_all add: Let_def max_def)

lemma getDepth_loop_Max:
  "getDepth_loop cs m = Max (insert m (getDepth ` set cs))"
proof -
  have "Max (set (m # map getDepth cs)) = fold max (map getDepth cs) m"
    by (rule Max.set_eq_fold)
  then show ?thesis by (simp add: getDepth_loop_fold)
qed

lemma getDepth_eq:
  "getDepth t = (if children t = [] then 1 else 1 + Max (getDepth ` set (children t)))"
proof (cases t)
  case (TraceItem f g gu to i out cs v e ty)
  show ?thesis
  proof (cases cs)
    case None
    with TraceItem show ?thesis by (simp add: children_def)
  next
    case (Some l)
    show ?thesis
    proof (cases l)
      case Nil
      with Some TraceItem show ?thesis by (simp add: children_def)
    next
      case (Cons c cs')
      have "getDepth_loop l 0 = Max (getDepth ` set l)"
        unfolding getDepth_loop_Max using Cons by simp
      with Some TraceItem Cons show ?thesis by (simp add: children_def)
    qed
  qed
qed

lemma BigInt_div_nonneg: "0 \<le> a \<Longrightarrow> 0 < b \<Longrightarrow> BigInt_div a b = a div b"
  by (cases "a = 0") (simp_all add: BigInt_div_def)

lemma getCallGasLimit_ok:
  assumes "\<not> truthy (ti_error c)" and "StringToBigInt (ti_gasUsed c) = Some g"
  shows "getCallGasLimit (Some c)
           = Inr (BigInt_div (g * 64 ^ getDepth c) (63 ^ getDepth c) + 2000)"
  using assms by (simp add: getCallGasLimit_def Let_def)

lemma mul64_div63: "(g::int) * 64 div 63 = g + g div 63"
proof -
  have "g * 64 = g + g * 63" by simp
  then have "g * 64 div 63 = (g + g * 63) div 63" by simp
  also have "\<dots> = g div 63 + g" by simp
  finally show ?thesis by simp
qed

section \<open>Gas limit of a located frame\<close>

text \<open>
  Claim C1. A frame located for a phase marker that carries no error gets the gas limit
  \<open>floor(gasUsed * 64^depth / 63^depth) + 2000\<close>, where \<open>getDepth\<close> gives 1 for a
  frame without child calls and 1 plus the greatest depth of a child otherwise. The
  frame's \<open>gasUsed\<close> string must read as a BigInt, and a quantity of gas is not
  negative; the quotient of BigInt division is then the floor.
\<close>

theorem getCallGasLimit_formula:
  assumes "getCallFromTrace trace frm to selector = Some call"
    and "\<not> truthy (ti_error call)"
    and "StringToBigInt (ti_gasUsed call) = Some gasUsed"
    and "0 \<le> gasUsed"
  shows "getCallGasLimit (getCallFromTrace trace frm to selector)
           = Inr (gasUsed * 64 ^ getDepth call div 63 ^ getDepth call + 2000)
         \<and> getDepth call
             = (if children call = [] then 1
                else 1 + Max (getDepth ` set (children call)))"
proof -
  have "BigInt_div (gasUsed * 64 ^ getDepth call) (63 ^ getDepth call)
          = gasUsed * 64 ^ getDepth call div 63 ^ getDepth call"
    using assms(4) by (intro BigInt_div_nonneg) simp_all
  with getCallGasLimit_ok [OF assms(2,3)] assms(1) getDepth_eq [of call]
  show ?thesis by simp
qed

text \<open>
  The frame of depth 3 with \<open>gasUsed = 0x5208 = 21000\<close>: the limit is
  \<open>floor(21000 * 64^3 / 63^3) + 2000 = 24015\<close>.
\<close>

theorem getCallGasLimit_formula_witness:
  "getCallFromTrace w_trace ''0x5ff1'' ''0xabc1'' EXECUTE_USEROP_SELECTOR = Some w_execute
   \<and> \<not> truthy (ti_error w_execute)
   \<and> StringToBigInt (ti_gasUsed w_execute) = Some 21000
   \<and> (0::int) \<le> 21000
   \<and> getDepth w_execute = 3
   \<and> getCallGasLimit (getCallFromTrace w_trace ''0x5ff1'' ''0xabc1'' EXECUTE_USEROP_SELECTOR)
       = Inr (21000 * 64 ^ 3 div 63 ^ 3 + 2000)
   \<and> (21000 * 64 ^ 3 div 63 ^ 3 + 2000 :: int) = 24015"
proof -
  have located:
    "getCallFromTrace w_trace ''0x5ff1'' ''0xabc1'' EXECUTE_USEROP_SELECTOR = Some w_execute"
    by code_simp
  have no_error: "\<not> truthy (ti_error w_execute)"
    by code_simp
  have gas: "StringToBigInt (ti_gasUsed w_execute) = Some 21000"
    by code_simp
  have depth: "getDepth w_execute = 3"
    by code_simp
  have nonneg: "(0::int) \<le> 21000"
    by simp
  from getCallGasLimit_formula [OF located no_error gas nonneg] located no_error gas depth
  show ?thesis by simp
qed

text \<open>
  Claim C5 says that a located leaf frame without error gets its unscaled \<open>gasUsed\<close>
  plus the overhead. The leaf frame of the account validation with
  \<open>gasUsed = 21000\<close> gets 23333, not 23000.
\<close>

theorem leaf_limit_counterexample:
  "getCallFromTrace w_trace ''0x5ff1'' ''0xabc1'' VERIFICATION_SELECTOR = Some w_verification
   \<and> ti_calls w_verification = None
   \<and> ti_error w_verification = None
   \<and> StringToBigInt (ti_gasUsed w_verification) = Some 21000
   \<and> getCallGasLimit (getCallFromTrace w_trace ''0x5ff1'' ''0xabc1'' VERIFICATION_SELECTOR)
       = Inr 23333
   \<and> (23333::int) \<noteq> 21000 + 2000"
  by code_simp

text \<open>
  Claim C5, amended. A located leaf frame without error has depth 1 and gets
  \<open>floor(gasUsed * 64 / 63) + 2000\<close>: the factor 64/63 is applied once, which adds
  \<open>floor(gasUsed / 63)\<close> to \<open>gasUsed\<close>.
\<close>

theorem leaf_limit:
  assumes "getCallFromTrace trace frm to selector = Some call"
    and "children call = []"
    and "\<not> truthy (ti_error call)"
    and "StringToBigInt (ti_gasUsed call) = Some gasUsed"
    and "0 \<le> gasUsed"
  shows "getCallGasLimit (getCallFromTrace trace frm to selector)
           = Inr (gasUsed * 64 div 63 + 2000)
         \<and> gasUsed * 64 div 63 = gasUsed + gasUsed div 63"
proof -
  have d: "getDepth call = 1"
    using assms(2) by (simp add: getDepth_eq)
  have "BigInt_div (gasUsed * 64) 63 = gasUsed * 64 div 63"
    using assms(5) by (intro BigInt_div_nonneg) simp_all
  with getCallGasLimit_ok [OF assms(3,4)] assms(1) d
  have "getCallGasLimit (getCallFromTrace trace frm to selector)
          = Inr (gasUsed * 64 div 63 + 2000)"
    by simp
  moreover have "gasUsed * 64 div 63 = gasUsed + gasUsed div 63"
    by (rule mul64_div63)
  ultimately show ?thesis by simp
qed

theorem leaf_limit_witness:
  "getCallFromTrace w_trace ''0x5ff1'' ''0xabc1'' VERIFICATION_SELECTOR = Some w_verification
   \<and> children w_verification = []
   \<and> \<not> truthy (ti_error w_verification)
   \<and> StringToBigInt (ti_gasUsed w_verification) = Some 21000
   \<and> (0::int) \<le> 21000
   \<and> getCallGasLimit (getCallFromTrace w_trace ''0x5ff1'' ''0xabc1'' VERIFICATION_SELECTOR)
       = Inr (21000 * 64 div 63 + 2000)
   \<and> (21000 * 64 div 63 + 2000 :: int) = 23333"
proof -
  have located:
    "getCallFromTrace w_trace ''0x5ff1'' ''0xabc1'' VERIFICATION_SELECTOR = Some w_verification"
    by code_simp
  have leaf: "children w_verification = []"
    by code_simp
  have no_error: "\<not> truthy (ti_error w_verification)"
    by code_simp
  have gas: "StringToBigInt (ti_gasUsed w_verification) = Some 21000"
    by code_simp
  have nonneg: "(0::int) \<le> 21000"
    by simp
  from leaf_limit [OF located leaf no_error gas nonneg] located leaf no_error gas
  show ?thesis by simp
qed

section \<open>Errors of the gas estimation\<close>

lemma estimate_root_error:
  assumes "validateParameters env userOp entryPointInput = None"
    and "simulationRpcParams env ''simulateHandleOp'' (entryPoint_address env) userOp
           stateOverride = Inr rpcParams"
    and "provider_send env ''debug_traceCall'' rpcParams = Inr trace"
    and "truthy (ti_error trace)"
  shows "fst (estimateUserOperationGas env userOp entryPointInput stateOverride)
           = Inl (RpcError
                    (Some (case findRevertedCall trace of
                             Some frame \<Rightarrow> getSimulationErrorMessage (Some frame)
                           | None \<Rightarrow>
                               (case decodeRevertReason env (ti_output trace) of
                                  Some m \<Rightarrow> m
                                | None \<Rightarrow> ''Unexpected error during gas estimation'')))
                    UserOperationReverted (findRevertedCall trace))"
  using assms
  by (simp add: estimateUserOperationGas_def Let_def split: option.splits)

lemma quote_in_revert_message:
  "CHR 0x22 \<in> set (getSimulationErrorMessage (Some call))"
  by (simp add: getSimulationErrorMessage_def)

lemma revert_message_not_no_call:
  "getSimulationErrorMessage (Some call) \<noteq> ''No call was made. Was that intentional?''"
proof
  assume "getSimulationErrorMessage (Some call) = ''No call was made. Was that intentional?''"
  then have "CHR 0x22 \<in> set ''No call was made. Was that intentional?''"
    using quote_in_revert_message [of call] by simp
  then show False by simp
qed

text \<open>
  Claim C3 says that a marker frame that is not found is signalled as a condition of its
  own, distinguished from a simulation revert. The post-operation marker of a paymaster
  that made no call is not found in the first trace below, and the execution frame of
  the second trace reverted: both are raised as an \<open>RpcError\<close> with the one code
  \<open>UserOperationReverted\<close>.
\<close>

theorem no_call_condition_counterexample:
  "getCallFromTrace w_trace ''0x5ff1'' ''0x9999'' POSTOP_SELECTOR = None
   \<and> getCallFromTrace x_trace ''0x5ff1'' ''0xabc1'' EXECUTE_USEROP_SELECTOR = Some x_call
   \<and> truthy (ti_error x_call)
   \<and> rpc_code (getCallGasLimit
                   (getCallFromTrace w_trace ''0x5ff1'' ''0x9999'' POSTOP_SELECTOR))
       = Some UserOperationReverted
   \<and> rpc_code (getCallGasLimit
                   (getCallFromTrace x_trace ''0x5ff1'' ''0xabc1'' EXECUTE_USEROP_SELECTOR))
       = Some UserOperationReverted
   \<and> rpc_code (getCallGasLimit
                   (getCallFromTrace w_trace ''0x5ff1'' ''0x9999'' POSTOP_SELECTOR))
       = rpc_code (getCallGasLimit
                     (getCallFromTrace x_trace ''0x5ff1'' ''0xabc1'' EXECUTE_USEROP_SELECTOR))"
proof -
  have absent: "getCallFromTrace w_trace ''0x5ff1'' ''0x9999'' POSTOP_SELECTOR = None"
    by code_simp
  have found:
    "getCallFromTrace x_trace ''0x5ff1'' ''0xabc1'' EXECUTE_USEROP_SELECTOR = Some x_call"
    by code_simp
  have errored: "truthy (ti_error x_call)"
    by code_simp
  have c1: "rpc_code (getCallGasLimit
                   (getCallFromTrace w_trace ''0x5ff1'' ''0x9999'' POSTOP_SELECTOR))
       = Some UserOperationReverted"
    by (simp add: absent getCallGasLimit_def rpc_code_def)
  have c2: "rpc_code (getCallGasLimit
                   (getCallFromTrace x_trace ''0x5ff1'' ''0xabc1'' EXECUTE_USEROP_SELECTOR))
       = Some UserOperationReverted"
    by (simp add: found errored getCallGasLimit_def rpc_code_def)
  from absent found errored c1 c2 show ?thesis by simp
qed

text \<open>
  Claim C3, amended. When the depth-first search finds no frame matching a marker
  (caller, callee, selector), the gas limit computation raises an \<open>RpcError\<close> with
  the code \<open>UserOperationReverted\<close>, the message ``No call was made. Was that
  intentional?'' and no frame. When the located frame carries an error, it raises an
  \<open>RpcError\<close> with the same code and the frame attached, whose message gives the
  frame's call type, input, caller, callee, its error and its output. The two errors
  differ in message and attached frame only: the second message is never the first.
\<close>

theorem marker_errors:
  "((\<forall>f \<in> set (frames trace). \<not> matches frm to selector f) \<longrightarrow>
      getCallGasLimit (getCallFromTrace trace frm to selector)
        = Inl (RpcError (Some ''No call was made. Was that intentional?'')
                 UserOperationReverted None)
      \<and> rpc_code (getCallGasLimit (getCallFromTrace trace frm to selector))
          = Some UserOperationReverted)
   \<and> (getCallFromTrace trace frm to selector = Some call
        \<and> ti_error call = Some err \<and> err \<noteq> [] \<longrightarrow>
        getCallGasLimit (getCallFromTrace trace frm to selector)
          = Inl (RpcError (Some (getSimulationErrorMessage (Some call)))
                   UserOperationReverted (Some call))
        \<and> rpc_code (getCallGasLimit (getCallFromTrace trace frm to selector))
            = Some UserOperationReverted
        \<and> getSimulationErrorMessage (Some call)
            = ti_type call @ '' '' @ ti_input call @ '' from '' @ ti_from call
              @ '' to '' @ ti_to call @ '' reverted with \"'' @ err @ '':\" ''
              @ ti_output call
        \<and> getSimulationErrorMessage (Some call)
            \<noteq> ''No call was made. Was that intentional?'')"
proof (intro conjI impI)
  assume "\<forall>f \<in> set (frames trace). \<not> matches frm to selector f"
  then have "getCallFromTrace trace frm to selector = None"
    by (simp add: getCallFromTrace_find find_None_iff)
  then show no_call: "getCallGasLimit (getCallFromTrace trace frm to selector)
        = Inl (RpcError (Some ''No call was made. Was that intentional?'')
                 UserOperationReverted None)"
    by (simp add: getCallGasLimit_def)
  then show "rpc_code (getCallGasLimit (getCallFromTrace trace frm to selector))
          = Some UserOperationReverted"
    by (simp add: rpc_code_def)
next
  assume a: "getCallFromTrace trace frm to selector = Some call
        \<and> ti_error call = Some err \<and> err \<noteq> []"
  then show reverted: "getCallGasLimit (getCallFromTrace trace frm to selector)
          = Inl (RpcError (Some (getSimulationErrorMessage (Some call)))
                   UserOperationReverted (Some call))"
    by (simp add: getCallGasLimit_def truthy_def)
  then show "rpc_code (getCallGasLimit (getCallFromTrace trace frm to selector))
            = Some UserOperationReverted"
    by (simp add: rpc_code_def)
  from a show "getSimulationErrorMessage (Some call)
            = ti_type call @ '' '' @ ti_input call @ '' from '' @ ti_from call
              @ '' to '' @ ti_to call @ '' reverted with \"'' @ err @ '':\" ''
              @ ti_output call"
    by (simp add: getSimulationErrorMessage_def)
  show "getSimulationErrorMessage (Some call)
            \<noteq> ''No call was made. Was that intentional?''"
    by (rule revert_message_not_no_call)
qed

theorem marker_errors_witness:
  "filter (matches ''0x5ff1'' ''0x9999'' POSTOP_SELECTOR) (frames w_trace) = []
   \<and> getCallGasLimit (getCallFromTrace w_trace ''0x5ff1'' ''0x9999'' POSTOP_SELECTOR)
       = Inl (RpcError (Some ''No call was made. Was that intentional?'')
                UserOperationReverted None)
   \<and> getCallFromTrace x_trace ''0x5ff1'' ''0xabc1'' EXECUTE_USEROP_SELECTOR = Some x_call
   \<and> ti_error x_call = Some ''execution reverted''
   \<and> getCallGasLimit (getCallFromTrace x_trace ''0x5ff1'' ''0xabc1'' EXECUTE_USEROP_SELECTOR)
       = Inl (RpcError
                (Some ''CALL 0x8dd7712f00000020 from 0x5ff1 to 0xabc1 reverted with \"execution reverted:\" 0x08c379a0'')
                UserOperationReverted (Some x_call))
   \<and> rpc_code (getCallGasLimit
                   (getCallFromTrace x_trace ''0x5ff1'' ''0xabc1'' EXECUTE_USEROP_SELECTOR))
       = Some UserOperationReverted"
proof -
  have none: "filter (matches ''0x5ff1'' ''0x9999'' POSTOP_SELECTOR) (frames w_trace) = []"
    by code_simp
  then have absent:
    "\<forall>f \<in> set (frames w_trace). \<not> matches ''0x5ff1'' ''0x9999'' POSTOP_SELECTOR f"
    by (simp add: filter_empty_conv)
  have found: "getCallFromTrace x_trace ''0x5ff1'' ''0xabc1'' EXECUTE_USEROP_SELECTOR = Some x_call"
    by code_simp
  have err: "ti_error x_call = Some ''execution reverted''"
    by code_simp
  have msg: "ti_type x_call @ '' '' @ ti_input x_call @ '' from '' @ ti_from x_call
              @ '' to '' @ ti_to x_call @ '' reverted with \"'' @ ''execution reverted'' @ '':\" ''
              @ ti_output x_call
     = ''CALL 0x8dd7712f00000020 from 0x5ff1 to 0xabc1 reverted with \"execution reverted:\" 0x08c379a0''"
    by code_simp
  from marker_errors [of w_trace "''0x5ff1''" "''0x9999''" POSTOP_SELECTOR] absent
  have no_call:
    "getCallGasLimit (getCallFromTrace w_trace ''0x5ff1'' ''0x9999'' POSTOP_SELECTOR)
       = Inl (RpcError (Some ''No call was made. Was that intentional?'')
                UserOperationReverted None)"
    by blast
  have nonempty: "''execution reverted'' \<noteq> []"
    by simp
  from marker_errors [of x_trace "''0x5ff1''" "''0xabc1''" EXECUTE_USEROP_SELECTOR x_call
      "''execution reverted''"] found err nonempty
  have both: "getCallGasLimit (getCallFromTrace x_trace ''0x5ff1'' ''0xabc1'' EXECUTE_USEROP_SELECTOR)
          = Inl (RpcError (Some (getSimulationErrorMessage (Some x_call)))
                   UserOperationReverted (Some x_call))
        \<and> rpc_code (getCallGasLimit
                   (getCallFromTrace x_trace ''0x5ff1'' ''0xabc1'' EXECUTE_USEROP_SELECTOR))
            = Some UserOperationReverted
        \<and> getSimulationErrorMessage (Some x_call)
            = ti_type x_call @ '' '' @ ti_input x_call @ '' from '' @ ti_from x_call
              @ '' to '' @ ti_to x_call @ '' reverted with \"'' @ ''execution reverted'' @ '':\" ''
              @ ti_output x_call"
    by blast
  then have code: "rpc_code (getCallGasLimit
                   (getCallFromTrace x_trace ''0x5ff1'' ''0xabc1'' EXECUTE_USEROP_SELECTOR))
            = Some UserOperationReverted"
    by blast
  from both msg have reverted:
    "getCallGasLimit (getCallFromTrace x_trace ''0x5ff1'' ''0xabc1'' EXECUTE_USEROP_SELECTOR)
       = Inl (RpcError
                (Some ''CALL 0x8dd7712f00000020 from 0x5ff1 to 0xabc1 reverted with \"execution reverted:\" 0x08c379a0'')
                UserOperationReverted (Some x_call))"
    by simp
  from none no_call found err reverted code show ?thesis by blast
qed

text \<open>
  Claim C4 says that, when the root of the trace reports an error, the reported frame is
  the first errored leaf in depth-first order. In the trace below the first errored leaf
  is a static call; the search passes over it and the error reports the execution frame
  that comes after it.
\<close>

theorem first_errored_leaf_counterexample:
  "truthy (ti_error x_trace)
   \<and> List.find errored_leaf (frames x_trace) = Some x_static
   \<and> findRevertedCall x_trace = Some x_call
   \<and> x_call \<noteq> x_static
   \<and> fst (estimateUserOperationGas (w_env x_trace 60000) w_userOp ''0x5FF1'' None)
       = Inl (RpcError (Some (getSimulationErrorMessage (Some x_call)))
                UserOperationReverted (Some x_call))"
proof -
  have "truthy (ti_error x_trace)" by code_simp
  moreover have "List.find errored_leaf (frames x_trace) = Some x_static" by code_simp
  moreover have "findRevertedCall x_trace = Some x_call" by code_simp
  moreover have "x_call \<noteq> x_static" by code_simp
  moreover have "fst (estimateUserOperationGas (w_env x_trace 60000) w_userOp ''0x5FF1'' None)
       = Inl (RpcError (Some (getSimulationErrorMessage (Some x_call)))
                UserOperationReverted (Some x_call))"
    by code_simp
  ultimately show ?thesis by blast
qed

text \<open>
  Claim C4, amended. When the root of the trace reports an error, the error names the
  first leaf frame in depth-first order that carries an error and is not a static call,
  with that frame's message. When there is no such frame, the error carries no frame and
  its message is the revert reason decoded from the root's output or, when none decodes,
  ``Unexpected error during gas estimation''.
\<close>

theorem reverted_root_report:
  assumes "validateParameters env userOp entryPointInput = None"
    and "simulationRpcParams env ''simulateHandleOp'' (entryPoint_address env) userOp
           stateOverride = Inr rpcParams"
    and "provider_send env ''debug_traceCall'' rpcParams = Inr trace"
    and "truthy (ti_error trace)"
  shows "findRevertedCall trace = List.find reverted_leaf (frames trace)
         \<and> fst (estimateUserOperationGas env userOp entryPointInput stateOverride)
             = Inl (case List.find reverted_leaf (frames trace) of
                      Some frame \<Rightarrow>
                        RpcError (Some (getSimulationErrorMessage (Some frame)))
                          UserOperationReverted (Some frame)
                    | None \<Rightarrow>
                        RpcError
                          (Some (case decodeRevertReason env (ti_output trace) of
                                   Some m \<Rightarrow> m
                                 | None \<Rightarrow> ''Unexpected error during gas estimation''))
                          UserOperationReverted None)"
  using estimate_root_error [OF assms]
  by (simp add: findRevertedCall_find split: option.splits)

theorem reverted_root_report_witness:
  "validateParameters (w_env x_trace 60000) w_userOp ''0x5FF1'' = None
   \<and> simulationRpcParams (w_env x_trace 60000) ''simulateHandleOp''
        (entryPoint_address (w_env x_trace 60000)) w_userOp None = Inr ''[tx]''
   \<and> provider_send (w_env x_trace 60000) ''debug_traceCall'' ''[tx]'' = Inr x_trace
   \<and> truthy (ti_error x_trace)
   \<and> List.find reverted_leaf (frames x_trace) = Some x_call
   \<and> fst (estimateUserOperationGas (w_env x_trace 60000) w_userOp ''0x5FF1'' None)
       = Inl (RpcError (Some (getSimulationErrorMessage (Some x_call)))
                UserOperationReverted (Some x_call))"
proof -
  have h1: "validateParameters (w_env x_trace 60000) w_userOp ''0x5FF1'' = None"
    by (simp add: w_env_def)
  have h2: "simulationRpcParams (w_env x_trace 60000) ''simulateHandleOp''
        (entryPoint_address (w_env x_trace 60000)) w_userOp None = Inr ''[tx]''"
    by (simp add: w_env_def)
  have h3: "provider_send (w_env x_trace 60000) ''debug_traceCall'' ''[tx]'' = Inr x_trace"
    by (simp add: w_env_def)
  have h4: "truthy (ti_error x_trace)"
    by code_simp
  have first: "List.find reverted_leaf (frames x_trace) = Some x_call"
    by code_simp
  from reverted_root_report [OF h1 h2 h3 h4] first h1 h2 h3 h4
  show ?thesis by simp
qed

text \<open>
  Claim C10. \<open>findRevertedCall\<close> never returns a frame of type \<open>STATICCALL\<close>. When
  every errored leaf of the trace is a static call it returns \<open>null\<close>, and the error
  of a reverted simulation then carries no frame: its message is the decoded revert
  reason of the root or the generic ``Unexpected error during gas estimation'', not the
  details of the static call.
\<close>

theorem findRevertedCall_never_STATICCALL:
  "(findRevertedCall trace = Some frame \<longrightarrow>
      ti_type frame \<noteq> ''STATICCALL'' \<and> errored_leaf frame \<and> frame \<in> set (frames trace))
   \<and> ((\<forall>f \<in> set (frames trace). errored_leaf f \<longrightarrow> ti_type f = ''STATICCALL'') \<longrightarrow>
        findRevertedCall trace = None)
   \<and> (validateParameters env userOp entryPointInput = None
        \<and> simulationRpcParams env ''simulateHandleOp'' (entryPoint_address env) userOp
             stateOverride = Inr rpcParams
        \<and> provider_send env ''debug_traceCall'' rpcParams = Inr trace
        \<and> truthy (ti_error trace)
        \<and> (\<forall>f \<in> set (frames trace). errored_leaf f \<longrightarrow> ti_type f = ''STATICCALL'') \<longrightarrow>
        fst (estimateUserOperationGas env userOp entryPointInput stateOverride)
          = Inl (RpcError
                   (Some (case decodeRevertReason env (ti_output trace) of
                            Some m \<Rightarrow> m
                          | None \<Rightarrow> ''Unexpected error during gas estimation''))
                   UserOperationReverted None))"
proof -
  have some: "findRevertedCall trace = Some frame \<Longrightarrow>
      ti_type frame \<noteq> ''STATICCALL'' \<and> errored_leaf frame \<and> frame \<in> set (frames trace)"
    by (auto simp: findRevertedCall_find find_Some_iff reverted_leaf_def)
  have none: "findRevertedCall trace = None"
    if "\<forall>f \<in> set (frames trace). errored_leaf f \<longrightarrow> ti_type f = ''STATICCALL''"
    using that by (auto simp: findRevertedCall_find find_None_iff reverted_leaf_def)
  have report: "fst (estimateUserOperationGas env userOp entryPointInput stateOverride)
          = Inl (RpcError
                   (Some (case decodeRevertReason env (ti_output trace) of
                            Some m \<Rightarrow> m
                          | None \<Rightarrow> ''Unexpected error during gas estimation''))
                   UserOperationReverted None)"
    if "validateParameters env userOp entryPointInput = None"
      and "simulationRpcParams env ''simulateHandleOp'' (entryPoint_address env) userOp
             stateOverride = Inr rpcParams"
      and "provider_send env ''debug_traceCall'' rpcParams = Inr trace"
      and "truthy (ti_error trace)"
      and "\<forall>f \<in> set (frames trace). errored_leaf f \<longrightarrow> ti_type f = ''STATICCALL''"
    using estimate_root_error [OF that(1-4)] none [OF that(5)] by simp
  from some none report show ?thesis by blast
qed

theorem findRevertedCall_never_STATICCALL_witness:
  "findRevertedCall x_trace = Some x_call
   \<and> ti_type x_call \<noteq> ''STATICCALL''
   \<and> filter errored_leaf (frames y_trace) = [x_static]
   \<and> ti_type x_static = ''STATICCALL''
   \<and> findRevertedCall y_trace = None
   \<and> validateParameters (w_env y_trace 60000) w_userOp ''0x5FF1'' = None
   \<and> simulationRpcParams (w_env y_trace 60000) ''simulateHandleOp''
        (entryPoint_address (w_env y_trace 60000)) w_userOp None = Inr ''[tx]''
   \<and> provider_send (w_env y_trace 60000) ''debug_traceCall'' ''[tx]'' = Inr y_trace
   \<and> truthy (ti_error y_trace)
   \<and> fst (estimateUserOperationGas (w_env y_trace 60000) w_userOp ''0x5FF1'' None)
       = Inl (RpcError (Some ''Unexpected error during gas estimation'')
                UserOperationReverted None)"
proof -
  have found: "findRevertedCall x_trace = Some x_call"
    by code_simp
  have errored: "filter errored_leaf (frames y_trace) = [x_static]"
    by code_simp
  have static: "ti_type x_static = ''STATICCALL''"
    by code_simp
  have only_static:
    "\<forall>f \<in> set (frames y_trace). errored_leaf f \<longrightarrow> ti_type f = ''STATICCALL''"
  proof (intro ballI impI)
    fix f
    assume "f \<in> set (frames y_trace)" and "errored_leaf f"
    then have "f \<in> set (filter errored_leaf (frames y_trace))"
      by simp
    with errored static show "ti_type f = ''STATICCALL''"
      by simp
  qed
  have h1: "validateParameters (w_env y_trace 60000) w_userOp ''0x5FF1'' = None"
    by (simp add: w_env_def)
  have h2: "simulationRpcParams (w_env y_trace 60000) ''simulateHandleOp''
        (entryPoint_address (w_env y_trace 60000)) w_userOp None = Inr ''[tx]''"
    by (simp add: w_env_def)
  have h3: "provider_send (w_env y_trace 60000) ''debug_traceCall'' ''[tx]'' = Inr y_trace"
    by (simp add: w_env_def)
  have h4: "truthy (ti_error y_trace)"
    by code_simp
  have reason: "decodeRevertReason (w_env y_trace 60000) (ti_output y_trace) = None"
    by (simp add: w_env_def)
  from findRevertedCall_never_STATICCALL [of x_trace x_call] found
  have c1: "ti_type x_call \<noteq> ''STATICCALL''"
    by blast
  from findRevertedCall_never_STATICCALL [of y_trace] only_static
  have c2: "findRevertedCall y_trace = None"
    by blast
  from findRevertedCall_never_STATICCALL
         [of y_trace _ "w_env y_trace 60000" w_userOp "''0x5FF1''" None "''[tx]''"]
       h1 h2 h3 h4 only_static
  have "fst (estimateUserOperationGas (w_env y_trace 60000) w_userOp ''0x5FF1'' None)
          = Inl (RpcError
                   (Some (case decodeRevertReason (w_env y_trace 60000) (ti_output y_trace) of
                            Some m \<Rightarrow> m
                          | None \<Rightarrow> ''Unexpected error during gas estimation''))
                   UserOperationReverted None)"
    by blast
  with reason have c3:
    "fst (estimateUserOperationGas (w_env y_trace 60000) w_userOp ''0x5FF1'' None)
       = Inl (RpcError (Some ''Unexpected error during gas estimation'')
                UserOperationReverted None)"
    by simp
  from found c1 errored static c2 h1 h2 h3 h4 c3 show ?thesis by blast
qed

section \<open>The estimate and the operation\<close>

text \<open>
  Every run of \<open>estimateUserOperationGas\<close> ends in one of three ways: it fails before
  line 322 and leaves the operation as it was; it fails in \<open>calcPreVerificationGas\<close>
  after the assignment of line 322; or it returns the estimate computed from the four
  located frames.
\<close>

lemma estimate_cases:
  fixes env userOp entryPointInput stateOverride
  defines "E \<equiv> estimateUserOperationGas env userOp entryPointInput stateOverride"
    and "userOp' \<equiv> userOp\<lparr>uo_preVerificationGas := Some (BN_number 50000)\<rparr>"
  shows "(\<exists>e. E = (Inl e, userOp))
       \<or> (\<exists>e. E = (Inl e, userOp'))
       \<or> (\<exists>rpcParams trace returnInfo paymaster callGas pm post acct pvg.
             simulationRpcParams env ''simulateHandleOp'' (entryPoint_address env) userOp
               stateOverride = Inr rpcParams
           \<and> provider_send env ''debug_traceCall'' rpcParams = Inr trace
           \<and> decodeSimulateHandleOpResult env (ti_output trace) = Inr returnInfo
           \<and> uo_paymaster userOp = Some paymaster
           \<and> getCallGasLimit
                (getCallFromTrace trace (toLowerCase (entryPoint_address env))
                   (toLowerCase (uo_sender userOp)) EXECUTE_USEROP_SELECTOR) = Inr callGas
           \<and> getCallGasLimit
                (getCallFromTrace trace (toLowerCase (entryPoint_address env))
                   (toLowerCase paymaster) VALIDATE_PAYMASTER_SELECTOR) = Inr pm
           \<and> getCallGasLimit
                (getCallFromTrace trace (toLowerCase (entryPoint_address env))
                   (toLowerCase paymaster) POSTOP_SELECTOR) = Inr post
           \<and> getCallGasLimit
                (getCallFromTrace trace (toLowerCase (entryPoint_address env))
                   (toLowerCase (uo_sender userOp)) VERIFICATION_SELECTOR) = Inr acct
           \<and> E = (Inr \<lparr>est_preVerificationGas = pvg,
                       est_verificationGasLimit =
                         acct + BigInt_div ((ri_preOpGas returnInfo - acct - pm) * 57) 100
                           + 3000,
                       est_validAfter =
                         fst (mergeValidationDataValues env
                                (ri_accountValidationData returnInfo)
                                (ri_paymasterValidationData returnInfo)),
                       est_validUntil =
                         snd (mergeValidationDataValues env
                                (ri_accountValidationData returnInfo)
                                (ri_paymasterValidationData returnInfo)),
                       est_callGasLimit = callGas,
                       est_paymasterPostOpGasLimit = post,
                       est_paymasterVerificationGasLimit =
                         pm + BigInt_div ((ri_preOpGas returnInfo - acct - pm) * 43) 100
                           + 3000\<rparr>,
                  userOp'))"
proof (cases "validateParameters env userOp entryPointInput")
  case (Some e)
  then show ?thesis by (simp add: E_def estimateUserOperationGas_def)
next
  case v: None
  show ?thesis
  proof (cases "simulationRpcParams env ''simulateHandleOp'' (entryPoint_address env) userOp
      stateOverride")
    case (Inl e)
    with v show ?thesis by (simp add: E_def estimateUserOperationGas_def)
  next
    case p: (Inr rpcParams)
    show ?thesis
    proof (cases "provider_send env ''debug_traceCall'' rpcParams")
      case (Inl e)
      with v p show ?thesis by (simp add: E_def estimateUserOperationGas_def)
    next
      case t: (Inr trace)
      show ?thesis
      proof (cases "truthy (ti_error trace)")
        case True
        with v p t show ?thesis by (simp add: E_def estimateUserOperationGas_def Let_def)
      next
        case ne: False
        show ?thesis
        proof (cases "decodeSimulateHandleOpResult env (ti_output trace)")
          case (Inl e)
          with v p t ne show ?thesis by (simp add: E_def estimateUserOperationGas_def)
        next
          case d: (Inr returnInfo)
          obtain va vu where m:
            "mergeValidationDataValues env (ri_accountValidationData returnInfo)
               (ri_paymasterValidationData returnInfo) = (va, vu)"
            by (cases "mergeValidationDataValues env (ri_accountValidationData returnInfo)
               (ri_paymasterValidationData returnInfo)") blast
          show ?thesis
          proof (cases "uo_paymaster userOp")
            case None
            with v p t ne d m show ?thesis
              by (simp add: E_def estimateUserOperationGas_def Let_def)
          next
            case pa: (Some paymaster)
            show ?thesis
            proof (cases "getCallGasLimit
                (getCallFromTrace trace (toLowerCase (entryPoint_address env))
                   (toLowerCase (uo_sender userOp)) EXECUTE_USEROP_SELECTOR)")
              case (Inl e)
              with v p t ne d m pa show ?thesis
                by (simp add: E_def estimateUserOperationGas_def Let_def)
            next
              case g1: (Inr callGas)
              show ?thesis
              proof (cases "getCallGasLimit
                (getCallFromTrace trace (toLowerCase (entryPoint_address env))
                   (toLowerCase paymaster) VALIDATE_PAYMASTER_SELECTOR)")
                case (Inl e)
                with v p t ne d m pa g1 show ?thesis
                  by (simp add: E_def estimateUserOperationGas_def Let_def)
              next
                case g2: (Inr pm)
                show ?thesis
                proof (cases "getCallGasLimit
                  (getCallFromTrace trace (toLowerCase (entryPoint_address env))
                     (toLowerCase paymaster) POSTOP_SELECTOR)")
                  case (Inl e)
                  with v p t ne d m pa g1 g2 show ?thesis
                    by (simp add: E_def estimateUserOperationGas_def Let_def)
                next
                  case g3: (Inr post)
                  show ?thesis
                  proof (cases "getCallGasLimit
                    (getCallFromTrace trace (toLowerCase (entryPoint_address env))
                       (toLowerCase (uo_sender userOp)) VERIFICATION_SELECTOR)")
                    case (Inl e)
                    with v p t ne d m pa g1 g2 g3 show ?thesis
                      by (simp add: E_def estimateUserOperationGas_def Let_def)
                  next
                    case g4: (Inr acct)
                    show ?thesis
                    proof (cases "calcPreVerificationGas env userOp'")
                      case (Inl e)
                      with v p t ne d m pa g1 g2 g3 g4 have "E = (Inl e, userOp')"
                        by (simp add: E_def userOp'_def estimateUserOperationGas_def Let_def)
                      then show ?thesis by blast
                    next
                      case c: (Inr pvg)
                      with v p t ne d m pa g1 g2 g3 g4
                      have "E = (Inr \<lparr>est_preVerificationGas = pvg,
                       est_verificationGasLimit =
                         acct + BigInt_div ((ri_preOpGas returnInfo - acct - pm) * 57) 100
                           + 3000,
                       est_validAfter =
                         fst (mergeValidationDataValues env
                                (ri_accountValidationData returnInfo)
                                (ri_paymasterValidationData returnInfo)),
                       est_validUntil =
                         snd (mergeValidationDataValues env
                                (ri_accountValidationData returnInfo)
                                (ri_paymasterValidationData returnInfo)),
                       est_callGasLimit = callGas,
                       est_paymasterPostOpGasLimit = post,
                       est_paymasterVerificationGasLimit =
                         pm + BigInt_div ((ri_preOpGas returnInfo - acct - pm) * 43) 100
                           + 3000\<rparr>,
                      userOp')"
                        by (simp add: E_def userOp'_def estimateUserOperationGas_def Let_def)
                      with p t d pa g1 g2 g3 g4 show ?thesis by blast
                    qed
                  qed
                qed
              qed
            qed
          qed
        qed
      qed
    qed
  qed
qed

text \<open>
  Claim C2 says that the returned verification limits add \<open>floor(overhead * 57 / 100)\<close>
  and \<open>floor(overhead * 43 / 100)\<close> to the measured limits, the overhead being
  \<open>preOpGas\<close> minus the two measured limits. With measured limits 23333 and 3015 and
  \<open>preOpGas = 26347\<close> the overhead is \<open>-1\<close>; BigInt division gives 0 where the floor
  is \<open>-1\<close>, so the returned limits are 26333 and 6015, not 26332 and 6014.
\<close>

theorem verification_limits_counterexample:
  "fst (estimateUserOperationGas (w_env w_trace 26347) w_userOp ''0x5FF1'' None)
     = Inr (w_result 26333 6015)
   \<and> getCallGasLimit (getCallFromTrace w_trace ''0x5ff1'' ''0xabc1'' VERIFICATION_SELECTOR)
       = Inr 23333
   \<and> getCallGasLimit (getCallFromTrace w_trace ''0x5ff1'' ''0xdef2'' VALIDATE_PAYMASTER_SELECTOR)
       = Inr 3015
   \<and> decodeSimulateHandleOpResult (w_env w_trace 26347) (ti_output w_trace)
       = Inr \<lparr>ri_preOpGas = 26347, ri_accountValidationData = 0,
               ri_paymasterValidationData = 0\<rparr>
   \<and> est_verificationGasLimit (w_result 26333 6015)
       \<noteq> 23333 + (26347 - 23333 - 3015) * 57 div 100 + 3000
   \<and> est_paymasterVerificationGasLimit (w_result 26333 6015)
       \<noteq> 3015 + (26347 - 23333 - 3015) * 43 div 100 + 3000"
proof -
  have "fst (estimateUserOperationGas (w_env w_trace 26347) w_userOp ''0x5FF1'' None)
     = Inr (w_result 26333 6015)"
    by code_simp
  moreover have
    "getCallGasLimit (getCallFromTrace w_trace ''0x5ff1'' ''0xabc1'' VERIFICATION_SELECTOR)
       = Inr 23333"
    by code_simp
  moreover have
    "getCallGasLimit (getCallFromTrace w_trace ''0x5ff1'' ''0xdef2'' VALIDATE_PAYMASTER_SELECTOR)
       = Inr 3015"
    by code_simp
  moreover have "decodeSimulateHandleOpResult (w_env w_trace 26347) (ti_output w_trace)
       = Inr \<lparr>ri_preOpGas = 26347, ri_accountValidationData = 0,
               ri_paymasterValidationData = 0\<rparr>"
    by (simp add: w_env_def)
  moreover have "est_verificationGasLimit (w_result 26333 6015)
       \<noteq> 23333 + (26347 - 23333 - 3015) * 57 div 100 + 3000"
    by (simp add: w_result_def)
  moreover have "est_paymasterVerificationGasLimit (w_result 26333 6015)
       \<noteq> 3015 + (26347 - 23333 - 3015) * 43 div 100 + 3000"
    by (simp add: w_result_def)
  ultimately show ?thesis by blast
qed

text \<open>
  Claim C2, amended. Whenever \<open>estimateUserOperationGas\<close> returns, the overhead is
  \<open>preOpGas\<close> of the decoded simulation result minus the limit computed for the account
  validation frame minus the limit computed for the paymaster validation frame; the
  returned \<open>verificationGasLimit\<close> is the account limit plus the quotient of
  \<open>overhead * 57\<close> by 100 rounded towards zero plus 3000, and the returned
  \<open>paymasterVerificationGasLimit\<close> is the paymaster limit plus the quotient of
  \<open>overhead * 43\<close> by 100 rounded towards zero plus 3000. By \<open>BigInt_div_nonneg\<close>
  the quotients are the floors whenever the overhead is not negative.
\<close>

theorem verification_limits:
  assumes "fst (estimateUserOperationGas env userOp entryPointInput stateOverride) = Inr res"
  shows "\<exists>rpcParams trace returnInfo paymaster acct pm.
           simulationRpcParams env ''simulateHandleOp'' (entryPoint_address env) userOp
             stateOverride = Inr rpcParams
         \<and> provider_send env ''debug_traceCall'' rpcParams = Inr trace
         \<and> decodeSimulateHandleOpResult env (ti_output trace) = Inr returnInfo
         \<and> uo_paymaster userOp = Some paymaster
         \<and> getCallGasLimit
              (getCallFromTrace trace (toLowerCase (entryPoint_address env))
                 (toLowerCase (uo_sender userOp)) VERIFICATION_SELECTOR) = Inr acct
         \<and> getCallGasLimit
              (getCallFromTrace trace (toLowerCase (entryPoint_address env))
                 (toLowerCase paymaster) VALIDATE_PAYMASTER_SELECTOR) = Inr pm
         \<and> est_verificationGasLimit res
             = acct + BigInt_div ((ri_preOpGas returnInfo - acct - pm) * 57) 100 + 3000
         \<and> est_paymasterVerificationGasLimit res
             = pm + BigInt_div ((ri_preOpGas returnInfo - acct - pm) * 43) 100 + 3000"
proof -
  from estimate_cases [of env userOp entryPointInput stateOverride] assms
  obtain rpcParams trace returnInfo paymaster callGas pm post acct pvg
    where f1: "simulationRpcParams env ''simulateHandleOp'' (entryPoint_address env) userOp
                 stateOverride = Inr rpcParams"
      and f2: "provider_send env ''debug_traceCall'' rpcParams = Inr trace"
      and f3: "decodeSimulateHandleOpResult env (ti_output trace) = Inr returnInfo"
      and f4: "uo_paymaster userOp = Some paymaster"
      and f5: "getCallGasLimit
                (getCallFromTrace trace (toLowerCase (entryPoint_address env))
                   (toLowerCase paymaster) VALIDATE_PAYMASTER_SELECTOR) = Inr pm"
      and f6: "getCallGasLimit
                (getCallFromTrace trace (toLowerCase (entryPoint_address env))
                   (toLowerCase (uo_sender userOp)) VERIFICATION_SELECTOR) = Inr acct"
      and f7: "fst (estimateUserOperationGas env userOp entryPointInput stateOverride)
         = Inr \<lparr>est_preVerificationGas = pvg,
                       est_verificationGasLimit =
                         acct + BigInt_div ((ri_preOpGas returnInfo - acct - pm) * 57) 100
                           + 3000,
                       est_validAfter =
                         fst (mergeValidationDataValues env
                                (ri_accountValidationData returnInfo)
                                (ri_paymasterValidationData returnInfo)),
                       est_validUntil =
                         snd (mergeValidationDataValues env
                                (ri_accountValidationData returnInfo)
                                (ri_paymasterValidationData returnInfo)),
                       est_callGasLimit = callGas,
                       est_paymasterPostOpGasLimit = post,
                       est_paymasterVerificationGasLimit =
                         pm + BigInt_div ((ri_preOpGas returnInfo - acct - pm) * 43) 100
                           + 3000\<rparr>"
    by (elim disjE exE conjE) simp_all
  from f7 assms have v: "est_verificationGasLimit res
             = acct + BigInt_div ((ri_preOpGas returnInfo - acct - pm) * 57) 100 + 3000"
    and p: "est_paymasterVerificationGasLimit res
             = pm + BigInt_div ((ri_preOpGas returnInfo - acct - pm) * 43) 100 + 3000"
    by auto
  from f1 f2 f3 f4 f5 f6 v p show ?thesis by blast
qed

theorem verification_limits_witness:
  "fst (estimateUserOperationGas (w_env w_trace 60000) w_userOp ''0x5FF1'' None)
     = Inr (w_result 45514 20485)
   \<and> est_verificationGasLimit (w_result 45514 20485)
       = 23333 + BigInt_div ((60000 - 23333 - 3015) * 57) 100 + 3000
   \<and> est_paymasterVerificationGasLimit (w_result 45514 20485)
       = 3015 + BigInt_div ((60000 - 23333 - 3015) * 43) 100 + 3000"
proof -
  have run: "fst (estimateUserOperationGas (w_env w_trace 60000) w_userOp ''0x5FF1'' None)
     = Inr (w_result 45514 20485)"
    by code_simp
  have a: "getCallGasLimit
              (getCallFromTrace w_trace (toLowerCase (entryPoint_address (w_env w_trace 60000)))
                 (toLowerCase (uo_sender w_userOp)) VERIFICATION_SELECTOR) = Inr 23333"
    by code_simp
  have b: "getCallGasLimit
              (getCallFromTrace w_trace (toLowerCase (entryPoint_address (w_env w_trace 60000)))
                 (toLowerCase ''0xDef2'') VALIDATE_PAYMASTER_SELECTOR) = Inr 3015"
    by code_simp
  from verification_limits [OF run]
  obtain rpcParams trace returnInfo paymaster acct pm
    where "provider_send (w_env w_trace 60000) ''debug_traceCall'' rpcParams = Inr trace"
      and "decodeSimulateHandleOpResult (w_env w_trace 60000) (ti_output trace)
             = Inr returnInfo"
      and "uo_paymaster w_userOp = Some paymaster"
      and acct: "getCallGasLimit
              (getCallFromTrace trace (toLowerCase (entryPoint_address (w_env w_trace 60000)))
                 (toLowerCase (uo_sender w_userOp)) VERIFICATION_SELECTOR) = Inr acct"
      and pm: "getCallGasLimit
              (getCallFromTrace trace (toLowerCase (entryPoint_address (w_env w_trace 60000)))
                 (toLowerCase paymaster) VALIDATE_PAYMASTER_SELECTOR) = Inr pm"
      and v: "est_verificationGasLimit (w_result 45514 20485)
             = acct + BigInt_div ((ri_preOpGas returnInfo - acct - pm) * 57) 100 + 3000"
      and p: "est_paymasterVerificationGasLimit (w_result 45514 20485)
             = pm + BigInt_div ((ri_preOpGas returnInfo - acct - pm) * 43) 100 + 3000"
    by blast
  then have "trace = w_trace" and "ri_preOpGas returnInfo = 60000" and "paymaster = ''0xDef2''"
    by (auto simp: w_env_def w_userOp_def)
  with acct pm a b have "acct = 23333" and "pm = 3015" and "ri_preOpGas returnInfo = 60000"
    by simp_all
  with v p run show ?thesis by simp
qed

text \<open>
  Claim C6 says that \<open>estimateUserOperationGas\<close> leaves every field of the operation it
  was given as it was. The operation below enters with \<open>preVerificationGas = 0x1\<close> and
  leaves a successful estimation with \<open>preVerificationGas = 50000\<close>.
\<close>

theorem operation_unchanged_counterexample:
  "fst (estimateUserOperationGas (w_env w_trace 60000) w_userOp ''0x5FF1'' None)
     = Inr (w_result 45514 20485)
   \<and> uo_preVerificationGas w_userOp = Some (BN_string ''0x1'')
   \<and> uo_preVerificationGas
        (snd (estimateUserOperationGas (w_env w_trace 60000) w_userOp ''0x5FF1'' None))
       = Some (BN_number 50000)
   \<and> snd (estimateUserOperationGas (w_env w_trace 60000) w_userOp ''0x5FF1'' None)
       \<noteq> w_userOp"
proof -
  have run: "estimateUserOperationGas (w_env w_trace 60000) w_userOp ''0x5FF1'' None
     = (Inr (w_result 45514 20485),
        w_userOp\<lparr>uo_preVerificationGas := Some (BN_number 50000)\<rparr>)"
    by code_simp
  have before: "uo_preVerificationGas w_userOp = Some (BN_string ''0x1'')"
    by (simp add: w_userOp_def)
  have "w_userOp\<lparr>uo_preVerificationGas := Some (BN_number 50000)\<rparr> \<noteq> w_userOp"
  proof
    assume "w_userOp\<lparr>uo_preVerificationGas := Some (BN_number 50000)\<rparr> = w_userOp"
    then have "uo_preVerificationGas (w_userOp\<lparr>uo_preVerificationGas := Some (BN_number 50000)\<rparr>)
      = uo_preVerificationGas w_userOp"
      by simp
    with before show False by simp
  qed
  with run before show ?thesis by simp
qed

text \<open>
  Claim C6, amended. \<open>estimateUserOperationGas\<close> changes no field of the operation
  other than \<open>preVerificationGas\<close>: the operation it leaves is the one it was given or
  that one with \<open>preVerificationGas\<close> set to 50000, and whenever it returns an estimate
  it has set \<open>preVerificationGas\<close> to 50000.
\<close>

theorem operation_after_estimate:
  "(snd (estimateUserOperationGas env userOp entryPointInput stateOverride) = userOp
    \<or> snd (estimateUserOperationGas env userOp entryPointInput stateOverride)
        = userOp\<lparr>uo_preVerificationGas := Some (BN_number 50000)\<rparr>)
   \<and> (snd (estimateUserOperationGas env userOp entryPointInput stateOverride))
        \<lparr>uo_preVerificationGas := uo_preVerificationGas userOp\<rparr> = userOp
   \<and> (fst (estimateUserOperationGas env userOp entryPointInput stateOverride) = Inr res \<longrightarrow>
        snd (estimateUserOperationGas env userOp entryPointInput stateOverride)
          = userOp\<lparr>uo_preVerificationGas := Some (BN_number 50000)\<rparr>)"
proof -
  let ?E = "estimateUserOperationGas env userOp entryPointInput stateOverride"
  let ?userOp' = "userOp\<lparr>uo_preVerificationGas := Some (BN_number 50000)\<rparr>"
  from estimate_cases [of env userOp entryPointInput stateOverride]
  consider (early) e where "?E = (Inl e, userOp)"
    | (late) e where "?E = (Inl e, ?userOp')"
    | (returned) r where "?E = (Inr r, ?userOp')"
    by blast
  then show ?thesis
  proof cases
    case early
    then show ?thesis by simp
  next
    case late
    then show ?thesis by simp
  next
    case returned
    then show ?thesis by simp
  qed
qed

theorem operation_after_estimate_witness:
  "fst (estimateUserOperationGas (w_env w_trace 60000) w_userOp ''0x5FF1'' None)
     = Inr (w_result 45514 20485)
   \<and> snd (estimateUserOperationGas (w_env w_trace 60000) w_userOp ''0x5FF1'' None)
       = w_userOp\<lparr>uo_preVerificationGas := Some (BN_number 50000)\<rparr>
   \<and> (snd (estimateUserOperationGas (w_env w_trace 60000) w_userOp ''0x5FF1'' None))
        \<lparr>uo_preVerificationGas := uo_preVerificationGas w_userOp\<rparr> = w_userOp"
proof -
  have run: "fst (estimateUserOperationGas (w_env w_trace 60000) w_userOp ''0x5FF1'' None)
     = Inr (w_result 45514 20485)"
    by code_simp
  from operation_after_estimate
         [of "w_env w_trace 60000" w_userOp "''0x5FF1''" None "w_result 45514 20485"] run
  show ?thesis by blast
qed

text \<open>
  Claim C9. For an operation without \<open>paymaster\<close>, \<open>estimateUserOperationGas\<close> fails
  with an error and returns no estimate: if nothing fails earlier, reading
  \<open>userOp.paymaster!.toLowerCase()\<close> raises a TypeError.
\<close>

theorem no_paymaster_fails:
  assumes "uo_paymaster userOp = None"
  shows "(\<exists>e. fst (estimateUserOperationGas env userOp entryPointInput stateOverride) = Inl e)
         \<and> (\<forall>res. fst (estimateUserOperationGas env userOp entryPointInput stateOverride)
                     \<noteq> Inr res)"
proof -
  let ?E = "estimateUserOperationGas env userOp entryPointInput stateOverride"
  have "fst ?E \<noteq> Inr res" for res
  proof
    assume "fst ?E = Inr res"
    with estimate_cases [of env userOp entryPointInput stateOverride]
    obtain paymaster where "uo_paymaster userOp = Some paymaster"
      by (elim disjE exE conjE) simp_all
    with assms show False by simp
  qed
  then show ?thesis by (cases "fst ?E") auto
qed

theorem no_paymaster_fails_witness:
  "uo_paymaster (w_userOp\<lparr>uo_paymaster := None\<rparr>) = None
   \<and> fst (estimateUserOperationGas (w_env w_trace 60000) (w_userOp\<lparr>uo_paymaster := None\<rparr>)
            ''0x5FF1'' None)
       = Inl (TypeError ''Cannot read properties of undefined (reading toLowerCase)'')"
proof -
  have absent: "uo_paymaster (w_userOp\<lparr>uo_paymaster := None\<rparr>) = None"
    by simp
  have run: "fst (estimateUserOperationGas (w_env w_trace 60000)
                    (w_userOp\<lparr>uo_paymaster := None\<rparr>) ''0x5FF1'' None)
       = Inl (TypeError ''Cannot read properties of undefined (reading toLowerCase)'')"
    by code_simp
  from no_paymaster_fails [OF absent, of "w_env w_trace 60000" "''0x5FF1''" None] absent run
  show ?thesis by blast
qed

section \<open>Beneficiary of a bundle\<close>

text \<open>
  Claim C7. \<open>selectBeneficiary\<close> is to return the configured beneficiary unless the
  signer's balance is below the configured minimum. The code compares with \<open>lte\<close>: with
  a balance equal to the minimum of 1000 it returns the signer's address, not the
  configured beneficiary.
\<close>

theorem selectBeneficiary_at_minimum:
  "selectBeneficiary c7_config (\<lambda>address. 1000) ''0x5167'' = ''0x5167''
   \<and> minBalance c7_config = 1000
   \<and> beneficiary c7_config = ''0xBe9e''
   \<and> selectBeneficiary c7_config (\<lambda>address. 1000) ''0x5167'' \<noteq> beneficiary c7_config
   \<and> selectBeneficiary c7_config (\<lambda>address. 1001) ''0x5167'' = beneficiary c7_config
   \<and> selectBeneficiary c7_config (\<lambda>address. 999) ''0x5167'' = ''0x5167''"
  by (simp add: selectBeneficiary_def c7_config_def)

section \<open>Responses of the RPC server\<close>

text \<open>
  Claim C8. \<open>handleRpc\<close> is to answer every request item with a response object. The
  item is destructured before the \<open>try\<close>: for the item \<open>null\<close>, as in the batch
  \<open>[null]\<close>, the TypeError of the destructuring leaves \<open>handleRpc\<close> whatever the
  handlers do.
\<close>

theorem handleRpc_null_item:
  "handleRpc handleMethod deepHexlify JSON_stringify ReqNullish
     = Inl (TypeError ''Cannot destructure property method of reqItem'')"
  by (simp add: handleRpc_def)

text \<open>
  For every other item the \<open>catch\<close> turns what a handler throws into an error response,
  unless the thrown value is itself \<open>null\<close> or \<open>undefined\<close> or the error object
  cannot be serialised for the log.
\<close>

lemma handleRpc_response:
  assumes "handleMethod method params \<noteq> Inl CaughtNullish"
    and "\<And>r. handleMethod method params = Inr r \<Longrightarrow> deepHexlify r \<noteq> Inl CaughtNullish"
    and "\<And>error. \<exists>logged. JSON_stringify error = Inr logged"
  shows "\<exists>response.
           handleRpc handleMethod deepHexlify JSON_stringify (ReqItem method params jsonrpc id')
             = Inr response"
proof -
  have caught: "\<exists>response.
      (let err' = (case err of
                     CaughtValue outer (Some inner) \<Rightarrow> CaughtValue inner None
                   | _ \<Rightarrow> err)
       in case err' of
            CaughtNullish \<Rightarrow>
              Inl (TypeError ''Cannot read properties of undefined (reading message)'')
          | CaughtValue error _ \<Rightarrow>
              (case JSON_stringify error of
                 Inl e \<Rightarrow> Inl e
               | Inr logged \<Rightarrow> Inr (ErrorResponse jsonrpc id' error))) = Inr response"
    if "err \<noteq> CaughtNullish" for err :: "'a Caught"
  proof (cases err)
    case CaughtNullish
    with that show ?thesis by simp
  next
    case (CaughtValue outer inner)
    show ?thesis
    proof (cases inner)
      case None
      from assms(3) [of outer] obtain logged where "JSON_stringify outer = Inr logged"
        by blast
      with CaughtValue None show ?thesis by simp
    next
      case (Some i)
      from assms(3) [of i] obtain logged where "JSON_stringify i = Inr logged"
        by blast
      with CaughtValue Some show ?thesis by simp
    qed
  qed
  show ?thesis
  proof (cases "handleMethod method params")
    case (Inl err)
    with assms(1) have "err \<noteq> CaughtNullish" by auto
    from caught [OF this] Inl show ?thesis by (simp add: handleRpc_def)
  next
    case (Inr r)
    show ?thesis
    proof (cases "deepHexlify r")
      case (Inl err)
      with assms(2) [OF Inr] have "err \<noteq> CaughtNullish" by auto
      from caught [OF this] Inl Inr show ?thesis by (simp add: handleRpc_def)
    next
      case res: (Inr result)
      with Inr show ?thesis by (simp add: handleRpc_def)
    qed
  qed
qed

end
